theory Spec2Isabelle
  imports Main
begin

section \<open>Cluster objects\<close>

text \<open>
  The controller of \<^verbatim>\<open>main.go\<close> reads and writes two kinds of cluster objects,
  \<^verbatim>\<open>corev1.PersistentVolumeClaim\<close> and \<^verbatim>\<open>corev1.PersistentVolume\<close>. Each struct
  is a record holding the fields the controller reads and a few of the fields it must
  leave alone. A \<^verbatim>\<open>*metav1.Time\<close> is an optional instant, counted from Go's zero time;
  \<^verbatim>\<open>IsZero\<close> holds of the nil pointer and of the zero instant.
\<close>

type_synonym Time = int

definition IsZero :: "Time option \<Rightarrow> bool" where
  "IsZero t = (case t of None \<Rightarrow> True | Some x \<Rightarrow> x = 0)"

record ObjectMeta =
  Name :: string
  Namespace :: string
  UID :: string
  ResourceVersion :: string
  DeletionTimestamp :: "Time option"
  Finalizers :: "string list"

record ObjectReference =
  ref_Kind :: string
  ref_Namespace :: string
  ref_Name :: string
  ref_UID :: string

record PersistentVolumeSpec =
  ClaimRef :: "ObjectReference option"
  pv_StorageClassName :: string
  PersistentVolumeReclaimPolicy :: string

record PersistentVolumeStatus =
  pv_Phase :: string

record PersistentVolume =
  pv_ObjectMeta :: ObjectMeta
  pv_Spec :: PersistentVolumeSpec
  pv_Status :: PersistentVolumeStatus

record PersistentVolumeClaimSpec =
  VolumeName :: string
  pvc_StorageClassName :: string

record PersistentVolumeClaimStatus =
  pvc_Phase :: string

record PersistentVolumeClaim =
  pvc_ObjectMeta :: ObjectMeta
  pvc_Spec :: PersistentVolumeClaimSpec
  pvc_Status :: PersistentVolumeClaimStatus

text \<open>
  \<^verbatim>\<open>client.Object\<close> is an interface; the event filter tests whether the object behind
  it is a claim, so the model keeps the dynamic type as a constructor.
\<close>

datatype Object =
    PVCObj PersistentVolumeClaim
  | PVObj PersistentVolume
  | OtherObj ObjectMeta

fun GetObjectMeta :: "Object \<Rightarrow> ObjectMeta" where
  "GetObjectMeta (PVCObj pvc) = pvc_ObjectMeta pvc"
| "GetObjectMeta (PVObj pv) = pv_ObjectMeta pv"
| "GetObjectMeta (OtherObj m) = m"

definition GetFinalizers :: "Object \<Rightarrow> string list" where
  "GetFinalizers obj = Finalizers (GetObjectMeta obj)"

definition GetDeletionTimestamp :: "Object \<Rightarrow> Time option" where
  "GetDeletionTimestamp obj = DeletionTimestamp (GetObjectMeta obj)"

record NamespacedName =
  key_Namespace :: string
  key_Name :: string

record Request =
  req_NamespacedName :: NamespacedName

record Result =
  Requeue :: bool
  RequeueAfter :: int

text \<open>The Go value \<^verbatim>\<open>ctrl.Result{}\<close>.\<close>

definition Result_zero :: Result where
  "Result_zero = \<lparr>Requeue = False, RequeueAfter = 0\<rparr>"

section \<open>The object store client\<close>

text \<open>
  \<^verbatim>\<open>client.Client\<close> belongs to the controller-runtime library. The model is an
  in-memory store in the manner of the library's fake client: the stored claims and
  volumes, a reactor per verb and kind that can make the call fail with a chosen error
  (a conflict, a timeout, ...), and a log of every \<^verbatim>\<open>Update\<close> call with the object
  passed and the error returned. \<^verbatim>\<open>Get\<close> does not change the store. Claims are found
  by namespace and name, volumes (cluster-scoped) by name. An \<^verbatim>\<open>Update\<close> that no reactor
  fails replaces the stored object of the same identity, and answers NotFound when there is
  none. The store keeps a claim whose last finalizer is gone: the garbage collection that
  follows on a cluster is not part of the model. A run of the reconciler calls each verb
  on each kind at most once, so the reactors reach every combination of failing calls.
\<close>

datatype api_error = NotFound | Conflict | Transient

datatype Verb = VerbGet | VerbUpdate

datatype Kind = KindPersistentVolumeClaim | KindPersistentVolume

record Cluster =
  claims :: "PersistentVolumeClaim list"
  volumes :: "PersistentVolume list"
  reactors :: "Verb \<Rightarrow> Kind \<Rightarrow> api_error option"
  updates :: "(Object \<times> api_error option) list"

definition is_claim :: "NamespacedName \<Rightarrow> PersistentVolumeClaim \<Rightarrow> bool" where
  "is_claim key c \<longleftrightarrow>
     Namespace (pvc_ObjectMeta c) = key_Namespace key \<and> Name (pvc_ObjectMeta c) = key_Name key"

definition is_volume :: "string \<Rightarrow> PersistentVolume \<Rightarrow> bool" where
  "is_volume name v \<longleftrightarrow> Name (pv_ObjectMeta v) = name"

definition claim_key :: "PersistentVolumeClaim \<Rightarrow> NamespacedName" where
  "claim_key c = \<lparr>key_Namespace = Namespace (pvc_ObjectMeta c), key_Name = Name (pvc_ObjectMeta c)\<rparr>"

definition stored_claim :: "Cluster \<Rightarrow> NamespacedName \<Rightarrow> PersistentVolumeClaim option" where
  "stored_claim s key = find (is_claim key) (claims s)"

definition stored_volume :: "Cluster \<Rightarrow> string \<Rightarrow> PersistentVolume option" where
  "stored_volume s name = find (is_volume name) (volumes s)"

definition Get_PVC :: "Cluster \<Rightarrow> NamespacedName \<Rightarrow> api_error + PersistentVolumeClaim" where
  "Get_PVC s key =
     (case reactors s VerbGet KindPersistentVolumeClaim of
        Some e \<Rightarrow> Inl e
      | None \<Rightarrow> (case stored_claim s key of None \<Rightarrow> Inl NotFound | Some c \<Rightarrow> Inr c))"

definition Get_PV :: "Cluster \<Rightarrow> NamespacedName \<Rightarrow> api_error + PersistentVolume" where
  "Get_PV s key =
     (case reactors s VerbGet KindPersistentVolume of
        Some e \<Rightarrow> Inl e
      | None \<Rightarrow> (case stored_volume s (key_Name key) of None \<Rightarrow> Inl NotFound | Some v \<Rightarrow> Inr v))"

definition logged :: "Object \<Rightarrow> api_error option \<Rightarrow> Cluster \<Rightarrow> Cluster" where
  "logged obj r s = s\<lparr>updates := updates s @ [(obj, r)]\<rparr>"

definition Update_PVC :: "PersistentVolumeClaim \<Rightarrow> Cluster \<Rightarrow> api_error option \<times> Cluster" where
  "Update_PVC c s =
     (case reactors s VerbUpdate KindPersistentVolumeClaim of
        Some e \<Rightarrow> (Some e, logged (PVCObj c) (Some e) s)
      | None \<Rightarrow>
          (case stored_claim s (claim_key c) of
             None \<Rightarrow> (Some NotFound, logged (PVCObj c) (Some NotFound) s)
           | Some _ \<Rightarrow>
               (None, logged (PVCObj c) None
                  (s\<lparr>claims := map (\<lambda>x. if is_claim (claim_key c) x then c else x) (claims s)\<rparr>))))"

definition Update_PV :: "PersistentVolume \<Rightarrow> Cluster \<Rightarrow> api_error option \<times> Cluster" where
  "Update_PV v s =
     (case reactors s VerbUpdate KindPersistentVolume of
        Some e \<Rightarrow> (Some e, logged (PVObj v) (Some e) s)
      | None \<Rightarrow>
          (case stored_volume s (Name (pv_ObjectMeta v)) of
             None \<Rightarrow> (Some NotFound, logged (PVObj v) (Some NotFound) s)
           | Some _ \<Rightarrow>
               (None, logged (PVObj v) None
                  (s\<lparr>volumes := map (\<lambda>x. if is_volume (Name (pv_ObjectMeta v)) x then v else x)
                                   (volumes s)\<rparr>))))"

text \<open>\<^verbatim>\<open>client.IgnoreNotFound\<close>: nil for nil and for a NotFound error, the error otherwise.\<close>

definition IgnoreNotFound :: "api_error option \<Rightarrow> api_error option" where
  "IgnoreNotFound err = (case err of None \<Rightarrow> None | Some e \<Rightarrow> (if e = NotFound then None else Some e))"

section \<open>The finalizer helpers\<close>

definition PVClaimRefCleanupFinalizer :: string where
  "PVClaimRefCleanupFinalizer = ''liberator.io/pv-claim-ref-cleanup''"

text \<open>\<^verbatim>\<open>hasFinalizer\<close> is \<^verbatim>\<open>slices.Contains\<close> on the constant.\<close>

definition hasFinalizer :: "string list \<Rightarrow> bool" where
  "hasFinalizer finalizers \<longleftrightarrow> PVClaimRefCleanupFinalizer \<in> set finalizers"

text \<open>
  The helper \<^verbatim>\<open>removeFinalizer\<close> starts from an empty slice and appends, in a
  \<^verbatim>\<open>range\<close> loop, every element that differs from the constant. The loop is the
  recursion below on the elements still to visit, with the slice built so far.
\<close>

fun removeFinalizer_loop :: "string list \<Rightarrow> string list \<Rightarrow> string list" where
  "removeFinalizer_loop result [] = result"
| "removeFinalizer_loop result (finalizer # rest) =
     removeFinalizer_loop
       (if finalizer \<noteq> PVClaimRefCleanupFinalizer then result @ [finalizer] else result) rest"

definition removeFinalizer :: "string list \<Rightarrow> string list" where
  "removeFinalizer finalizers = removeFinalizer_loop [] finalizers"

section \<open>The reconciler\<close>

text \<open>
  Each method returns the pair \<^verbatim>\<open>(ctrl.Result, error)\<close> of the source together with
  the store after its calls. \<^verbatim>\<open>DeepCopy\<close> is the identity on values; the calls to the
  logger are left out.
\<close>

type_synonym Outcome = "Result \<times> api_error option"

definition PVCReconciler_removeFinalizer ::
  "PersistentVolumeClaim \<Rightarrow> Cluster \<Rightarrow> Outcome \<times> Cluster" where
  "PVCReconciler_removeFinalizer pvc s =
     (let pvcCopy = pvc\<lparr>pvc_ObjectMeta :=
            (pvc_ObjectMeta pvc)\<lparr>Finalizers := removeFinalizer (Finalizers (pvc_ObjectMeta pvc))\<rparr>\<rparr>
      in case Update_PVC pvcCopy s of
           (Some err, s') \<Rightarrow> ((Result_zero, Some err), s')
         | (None, s') \<Rightarrow> ((Result_zero, None), s'))"

text \<open>
  The test of \<^verbatim>\<open>handlePVCDeletion\<close> on the volume read: the back-reference is not nil
  and has the name and the namespace of the claim.
\<close>

definition claimRef_matches :: "PersistentVolume \<Rightarrow> PersistentVolumeClaim \<Rightarrow> bool" where
  "claimRef_matches pv pvc =
     (case ClaimRef (pv_Spec pv) of
        None \<Rightarrow> False
      | Some ref \<Rightarrow> ref_Name ref = Name (pvc_ObjectMeta pvc) \<and>
                    ref_Namespace ref = Namespace (pvc_ObjectMeta pvc))"

definition handlePVCDeletion :: "PersistentVolumeClaim \<Rightarrow> Cluster \<Rightarrow> Outcome \<times> Cluster" where
  "handlePVCDeletion pvc s =
     (if VolumeName (pvc_Spec pvc) \<noteq> [] then
        (case Get_PV s \<lparr>key_Namespace = [], key_Name = VolumeName (pvc_Spec pvc)\<rparr> of
           Inl err \<Rightarrow>
             (if IgnoreNotFound (Some err) \<noteq> None then ((Result_zero, Some err), s)
              else PVCReconciler_removeFinalizer pvc s)
         | Inr pv \<Rightarrow>
             (if claimRef_matches pv pvc then
                (let pvCopy = pv\<lparr>pv_Spec := (pv_Spec pv)\<lparr>ClaimRef := None\<rparr>\<rparr>
                 in case Update_PV pvCopy s of
                      (Some err, s') \<Rightarrow> ((Result_zero, Some err), s')
                    | (None, s') \<Rightarrow> PVCReconciler_removeFinalizer pvc s')
              else PVCReconciler_removeFinalizer pvc s))
      else PVCReconciler_removeFinalizer pvc s)"

definition Reconcile :: "Request \<Rightarrow> Cluster \<Rightarrow> Outcome \<times> Cluster" where
  "Reconcile req s =
     (case Get_PVC s (req_NamespacedName req) of
        Inl err \<Rightarrow> ((Result_zero, IgnoreNotFound (Some err)), s)
      | Inr pvc \<Rightarrow>
          (if \<not> IsZero (DeletionTimestamp (pvc_ObjectMeta pvc)) \<and>
              hasFinalizer (Finalizers (pvc_ObjectMeta pvc))
           then handlePVCDeletion pvc s
           else ((Result_zero, None), s)))"

text \<open>
  What the controller host sees: a nil error with the zero result ends the work on the
  request; a non-nil error makes the host queue the request again with backoff.
\<close>

definition terminal_success :: "Outcome \<Rightarrow> bool" where
  "terminal_success out \<longleftrightarrow> out = (Result_zero, None)"

definition retryable_failure :: "Outcome \<Rightarrow> bool" where
  "retryable_failure out \<longleftrightarrow> snd out \<noteq> None"

section \<open>The event filter\<close>

text \<open>
  \<^verbatim>\<open>SetupWithManager\<close> builds the filter from two predicates joined with
  \<^verbatim>\<open>predicate.And\<close>. \<^verbatim>\<open>predicate.NewPredicateFuncs\<close> applies one test to the object
  of a create, delete or generic event and to the new object of an update event.
\<close>

datatype Event =
    CreateEvent Object
  | UpdateEvent Object Object
  | DeleteEvent Object
  | GenericEvent Object

fun NewPredicateFuncs :: "(Object \<Rightarrow> bool) \<Rightarrow> Event \<Rightarrow> bool" where
  "NewPredicateFuncs flt (CreateEvent obj) = flt obj"
| "NewPredicateFuncs flt (UpdateEvent objectOld objectNew) = flt objectNew"
| "NewPredicateFuncs flt (DeleteEvent obj) = flt obj"
| "NewPredicateFuncs flt (GenericEvent obj) = flt obj"

definition predicate_And :: "(Event \<Rightarrow> bool) \<Rightarrow> (Event \<Rightarrow> bool) \<Rightarrow> Event \<Rightarrow> bool" where
  "predicate_And p q e \<longleftrightarrow> p e \<and> q e"

fun hasBoundPV :: "Object \<Rightarrow> bool" where
  "hasBoundPV (PVCObj pvc) = (VolumeName (pvc_Spec pvc) \<noteq> [])"
| "hasBoundPV (PVObj pv) = False"
| "hasBoundPV (OtherObj m) = False"

definition hasBoundPVPredicate :: "Event \<Rightarrow> bool" where
  "hasBoundPVPredicate = NewPredicateFuncs hasBoundPV"

fun predicates :: "Event \<Rightarrow> bool" where
  "predicates (CreateEvent obj) = hasFinalizer (GetFinalizers obj)"
| "predicates (DeleteEvent obj) = False"
| "predicates (UpdateEvent objectOld objectNew) =
     (let oldObject = hasFinalizer (GetFinalizers objectOld);
          newObject = hasFinalizer (GetFinalizers objectNew);
          deletionStarted = (\<not> IsZero (GetDeletionTimestamp objectNew))
      in oldObject \<noteq> newObject \<or> deletionStarted)"
| "predicates (GenericEvent obj) = hasFinalizer (GetFinalizers obj)"

definition combined :: "Event \<Rightarrow> bool" where
  "combined = predicate_And hasBoundPVPredicate predicates"

section \<open>Observations on a run\<close>

text \<open>
  The \<^verbatim>\<open>Update\<close> calls that one run of \<^verbatim>\<open>Reconcile\<close> issues are the entries it
  adds to the log, in order, each with the object passed and the error returned.
\<close>

definition Reconcile_updates :: "Request \<Rightarrow> Cluster \<Rightarrow> (Object \<times> api_error option) list" where
  "Reconcile_updates req s = drop (length (updates s)) (updates (snd (Reconcile req s)))"


text \<open>The two objects the controller writes, as functions of the objects it read.\<close>

definition token_removed :: "PersistentVolumeClaim \<Rightarrow> PersistentVolumeClaim" where
  "token_removed pvc =
     pvc\<lparr>pvc_ObjectMeta := (pvc_ObjectMeta pvc)
       \<lparr>Finalizers := filter (\<lambda>f. f \<noteq> PVClaimRefCleanupFinalizer) (Finalizers (pvc_ObjectMeta pvc))\<rparr>\<rparr>"

definition claimRef_cleared :: "PersistentVolume \<Rightarrow> PersistentVolume" where
  "claimRef_cleared pv = pv\<lparr>pv_Spec := (pv_Spec pv)\<lparr>ClaimRef := None\<rparr>\<rparr>"

section \<open>The scenarios of the specification\<close>

text \<open>
  Claim \<^verbatim>\<open>c1\<close> in namespace \<^verbatim>\<open>ns1\<close>: guard token present next to another finalizer,
  bound to volume \<^verbatim>\<open>v1\<close>, deletion requested. Volume \<^verbatim>\<open>v1\<close> refers back to the claim
  (scenario A) or to another claim (scenario B), or is missing (scenario C). The variants
  of scenario A make one call fail: the volume update with a conflict, the volume read
  with a timeout, or the volume read with a NotFound answer although the store holds the
  volume (a read served from a cache that has not seen the volume yet).
\<close>

definition claim_c1 :: PersistentVolumeClaim where
  "claim_c1 =
     \<lparr>pvc_ObjectMeta = \<lparr>Name = ''c1'', Namespace = ''ns1'', UID = ''uid-c1'',
        ResourceVersion = ''41'', DeletionTimestamp = Some 1700000000,
        Finalizers = [''kubernetes.io/pvc-protection'', ''liberator.io/pv-claim-ref-cleanup'']\<rparr>,
      pvc_Spec = \<lparr>VolumeName = ''v1'', pvc_StorageClassName = ''standard''\<rparr>,
      pvc_Status = \<lparr>pvc_Phase = ''Bound''\<rparr>\<rparr>"

definition claim_c1_alive :: PersistentVolumeClaim where
  "claim_c1_alive = claim_c1\<lparr>pvc_ObjectMeta := (pvc_ObjectMeta claim_c1)\<lparr>DeletionTimestamp := None\<rparr>\<rparr>"

definition claim_c1_later :: PersistentVolumeClaim where
  "claim_c1_later = claim_c1\<lparr>pvc_ObjectMeta := (pvc_ObjectMeta claim_c1)\<lparr>ResourceVersion := ''42''\<rparr>\<rparr>"

definition claim_c1_unbound :: PersistentVolumeClaim where
  "claim_c1_unbound = claim_c1\<lparr>pvc_Spec := (pvc_Spec claim_c1)\<lparr>VolumeName := []\<rparr>\<rparr>"

definition volume_v1 :: PersistentVolume where
  "volume_v1 =
     \<lparr>pv_ObjectMeta = \<lparr>Name = ''v1'', Namespace = [], UID = ''uid-v1'',
        ResourceVersion = ''17'', DeletionTimestamp = None,
        Finalizers = [''kubernetes.io/pv-protection'']\<rparr>,
      pv_Spec = \<lparr>ClaimRef = Some \<lparr>ref_Kind = ''PersistentVolumeClaim'', ref_Namespace = ''ns1'',
                                 ref_Name = ''c1'', ref_UID = ''uid-c1''\<rparr>,
                 pv_StorageClassName = ''standard'', PersistentVolumeReclaimPolicy = ''Retain''\<rparr>,
      pv_Status = \<lparr>pv_Phase = ''Bound''\<rparr>\<rparr>"

definition volume_v1_other :: PersistentVolume where
  "volume_v1_other =
     volume_v1\<lparr>pv_Spec := (pv_Spec volume_v1)
       \<lparr>ClaimRef := Some \<lparr>ref_Kind = ''PersistentVolumeClaim'', ref_Namespace = ''ns2'',
                          ref_Name = ''other'', ref_UID = ''uid-other''\<rparr>\<rparr>\<rparr>"

definition request_c1 :: Request where
  "request_c1 = \<lparr>req_NamespacedName = \<lparr>key_Namespace = ''ns1'', key_Name = ''c1''\<rparr>\<rparr>"

definition no_reactors :: "Verb \<Rightarrow> Kind \<Rightarrow> api_error option" where
  "no_reactors verb kind = None"

definition fail_on :: "Verb \<Rightarrow> Kind \<Rightarrow> api_error \<Rightarrow> Verb \<Rightarrow> Kind \<Rightarrow> api_error option" where
  "fail_on verb kind e verb' kind' = (if verb' = verb \<and> kind' = kind then Some e else None)"

definition cluster_A :: Cluster where
  "cluster_A = \<lparr>claims = [claim_c1], volumes = [volume_v1], reactors = no_reactors, updates = []\<rparr>"

definition cluster_B :: Cluster where
  "cluster_B = \<lparr>claims = [claim_c1], volumes = [volume_v1_other], reactors = no_reactors, updates = []\<rparr>"

definition cluster_C :: Cluster where
  "cluster_C = \<lparr>claims = [claim_c1], volumes = [], reactors = no_reactors, updates = []\<rparr>"



definition cluster_A_timeout :: Cluster where
  "cluster_A_timeout = cluster_A\<lparr>reactors := fail_on VerbGet KindPersistentVolume Transient\<rparr>"

definition cluster_alive :: Cluster where
  "cluster_alive = \<lparr>claims = [claim_c1_alive], volumes = [volume_v1], reactors = no_reactors, updates = []\<rparr>"

section \<open>The loop of removeFinalizer\<close>

lemma removeFinalizer_loop_filter:
  "removeFinalizer_loop acc fs = acc @ filter (\<lambda>f. f \<noteq> PVClaimRefCleanupFinalizer) fs"
  by (induction fs arbitrary: acc) simp_all

lemma removeFinalizer_filter:
  "removeFinalizer fs = filter (\<lambda>f. f \<noteq> PVClaimRefCleanupFinalizer) fs"
  by (simp add: removeFinalizer_def removeFinalizer_loop_filter)

section \<open>The store client: what a call leaves behind\<close>

lemma find_replace:
  "find P xs = Some y \<Longrightarrow> P n \<Longrightarrow> find P (map (\<lambda>x. if P x then n else x) xs) = Some n"
  by (induction xs) (auto split: if_splits)

lemma Update_PVC_log:
  "updates (snd (Update_PVC c s)) = updates s @ [(PVCObj c, fst (Update_PVC c s))]"
  by (simp add: Update_PVC_def logged_def split: option.splits)

lemma Update_PVC_frame:
  "volumes (snd (Update_PVC c s)) = volumes s" "reactors (snd (Update_PVC c s)) = reactors s"
  by (simp_all add: Update_PVC_def logged_def split: option.splits)

lemma Update_PVC_rejected:
  "fst (Update_PVC c s) \<noteq> None \<Longrightarrow> claims (snd (Update_PVC c s)) = claims s"
  by (simp add: Update_PVC_def logged_def split: option.splits)

lemma Update_PVC_accepted:
  "fst (Update_PVC c s) = None \<Longrightarrow> stored_claim (snd (Update_PVC c s)) (claim_key c) = Some c"
proof -
  assume ok: "fst (Update_PVC c s) = None"
  have self: "is_claim (claim_key c) c"
    by (simp add: is_claim_def claim_key_def)
  from ok obtain y where "find (is_claim (claim_key c)) (claims s) = Some y"
    by (auto simp: Update_PVC_def stored_claim_def split: option.splits)
  from find_replace [OF this self] ok show ?thesis
    by (simp add: Update_PVC_def logged_def stored_claim_def split: option.splits)
qed

lemma Update_PV_log:
  "updates (snd (Update_PV v s)) = updates s @ [(PVObj v, fst (Update_PV v s))]"
  by (simp add: Update_PV_def logged_def split: option.splits)



lemma Update_PV_accepted:
  "fst (Update_PV v s) = None \<Longrightarrow>
     stored_volume (snd (Update_PV v s)) (Name (pv_ObjectMeta v)) = Some v"
proof -
  assume ok: "fst (Update_PV v s) = None"
  have self: "is_volume (Name (pv_ObjectMeta v)) v"
    by (simp add: is_volume_def)
  from ok obtain y where "find (is_volume (Name (pv_ObjectMeta v))) (volumes s) = Some y"
    by (auto simp: Update_PV_def stored_volume_def split: option.splits)
  from find_replace [OF this self] ok show ?thesis
    by (simp add: Update_PV_def logged_def stored_volume_def split: option.splits)
qed

lemma removeFinalizer_method:
  "PVCReconciler_removeFinalizer pvc s =
     ((Result_zero, fst (Update_PVC (token_removed pvc) s)), snd (Update_PVC (token_removed pvc) s))"
  by (simp add: PVCReconciler_removeFinalizer_def token_removed_def removeFinalizer_filter
      split: prod.splits option.splits)

lemma Get_PVC_Inr:
  "Get_PVC s key = Inr pvc \<Longrightarrow>
     stored_claim s key = Some pvc \<and> reactors s VerbGet KindPersistentVolumeClaim = None"
  by (simp add: Get_PVC_def split: option.splits)

lemma Get_PV_Inr:
  "Get_PV s key = Inr pv \<Longrightarrow>
     stored_volume s (key_Name key) = Some pv \<and> reactors s VerbGet KindPersistentVolume = None"
  by (simp add: Get_PV_def split: option.splits)

lemma stored_claim_key: "stored_claim s key = Some pvc \<Longrightarrow> claim_key pvc = key"
  by (auto simp: stored_claim_def claim_key_def is_claim_def dest: find_Some_iff[THEN iffD1])

lemma stored_volume_name: "stored_volume s name = Some pv \<Longrightarrow> Name (pv_ObjectMeta pv) = name"
  by (auto simp: stored_volume_def is_volume_def dest: find_Some_iff[THEN iffD1])

section \<open>The event filter\<close>

lemma combined_update:
  "combined (UpdateEvent objectOld objectNew) \<longleftrightarrow>
     hasBoundPV objectNew \<and>
     (hasFinalizer (GetFinalizers objectOld) \<noteq> hasFinalizer (GetFinalizers objectNew)
      \<or> \<not> IsZero (GetDeletionTimestamp objectNew))"
  by (simp add: combined_def predicate_And_def hasBoundPVPredicate_def)

text \<open>
  C2, as the specification states it: an update about a bound claim is admitted exactly
  when the presence of the guard token differs between the old and the new object or the
  deletion marker goes from unset on the old object to set on the new one. The filter
  does not look at the old object's deletion marker: the update from \<open>claim_c1\<close> to
  \<open>claim_c1_later\<close> has the marker set and the token present on both sides, and is
  admitted.
\<close>

theorem update_filter_counterexample:
  "VolumeName (pvc_Spec claim_c1_later) \<noteq> [] \<and>
   combined (UpdateEvent (PVCObj claim_c1) (PVCObj claim_c1_later)) \<and>
   \<not> (hasFinalizer (Finalizers (pvc_ObjectMeta claim_c1)) \<noteq>
        hasFinalizer (Finalizers (pvc_ObjectMeta claim_c1_later)) \<or>
      IsZero (DeletionTimestamp (pvc_ObjectMeta claim_c1)) \<and>
        \<not> IsZero (DeletionTimestamp (pvc_ObjectMeta claim_c1_later)))"
  by (simp add: combined_update GetFinalizers_def GetDeletionTimestamp_def claim_c1_def
      claim_c1_later_def IsZero_def hasFinalizer_def)

text \<open>
  C2, amended: an update about a bound claim is admitted exactly when the presence of the
  guard token differs between the old and the new object or the deletion marker is set on
  the new object, whatever the old object's marker was.
\<close>

theorem update_filter_admits_iff:
  "VolumeName (pvc_Spec pvcNew) \<noteq> [] \<Longrightarrow>
   combined (UpdateEvent (PVCObj pvcOld) (PVCObj pvcNew)) \<longleftrightarrow>
     (hasFinalizer (Finalizers (pvc_ObjectMeta pvcOld)) \<noteq>
        hasFinalizer (Finalizers (pvc_ObjectMeta pvcNew))
      \<or> \<not> IsZero (DeletionTimestamp (pvc_ObjectMeta pvcNew)))"
  by (simp add: combined_update GetFinalizers_def GetDeletionTimestamp_def)

text \<open>
  The amended C2 on the scenario claim: the update that sets the deletion marker is
  admitted, the update that only unsets it is not.
\<close>

theorem update_filter_admits_iff_witness:
  "VolumeName (pvc_Spec claim_c1) \<noteq> [] \<and>
   combined (UpdateEvent (PVCObj claim_c1_alive) (PVCObj claim_c1)) \<and>
   \<not> combined (UpdateEvent (PVCObj claim_c1) (PVCObj claim_c1_alive))"
proof -
  have a: "VolumeName (pvc_Spec claim_c1) \<noteq> []" by code_simp
  have b: "VolumeName (pvc_Spec claim_c1_alive) \<noteq> []" by code_simp
  have c: "hasFinalizer (Finalizers (pvc_ObjectMeta claim_c1))
     \<and> hasFinalizer (Finalizers (pvc_ObjectMeta claim_c1_alive))
     \<and> \<not> IsZero (DeletionTimestamp (pvc_ObjectMeta claim_c1))
     \<and> IsZero (DeletionTimestamp (pvc_ObjectMeta claim_c1_alive))" by code_simp
  from update_filter_admits_iff [OF a, of claim_c1_alive]
       update_filter_admits_iff [OF b, of claim_c1] a c
  show ?thesis by simp
qed

text \<open>
  C8: a notification whose object is a claim with an empty bound-volume name, or is not a
  claim at all, is never admitted, whatever its kind (create, update, delete, generic),
  its finalizers and its deletion marker. The object of an update is the new object.
\<close>

theorem filter_rejects_unbound_and_foreign:
  assumes "case obj of PVCObj pvc \<Rightarrow> VolumeName (pvc_Spec pvc) = [] | _ \<Rightarrow> True"
  shows "\<not> combined (CreateEvent obj) \<and> \<not> combined (UpdateEvent objectOld obj) \<and>
         \<not> combined (DeleteEvent obj) \<and> \<not> combined (GenericEvent obj)"
  using assms
  by (cases obj) (simp_all add: combined_def predicate_And_def hasBoundPVPredicate_def)

text \<open>
  C8 on an unbound claim that carries the guard token and the deletion marker, and on a
  volume.
\<close>

theorem filter_rejects_unbound_and_foreign_witness:
  "(case PVCObj claim_c1_unbound of PVCObj pvc \<Rightarrow> VolumeName (pvc_Spec pvc) = [] | _ \<Rightarrow> True) \<and>
   hasFinalizer (GetFinalizers (PVCObj claim_c1_unbound)) \<and>
   \<not> IsZero (GetDeletionTimestamp (PVCObj claim_c1_unbound)) \<and>
   \<not> combined (CreateEvent (PVCObj claim_c1_unbound)) \<and>
   \<not> combined (UpdateEvent (PVCObj claim_c1_alive) (PVCObj claim_c1_unbound)) \<and>
   \<not> combined (GenericEvent (PVCObj claim_c1_unbound)) \<and>
   \<not> combined (GenericEvent (PVObj volume_v1))"
proof -
  have a: "case PVCObj claim_c1_unbound of PVCObj pvc \<Rightarrow> VolumeName (pvc_Spec pvc) = [] | _ \<Rightarrow> True"
    by code_simp
  have b: "case PVObj volume_v1 of PVCObj pvc \<Rightarrow> VolumeName (pvc_Spec pvc) = [] | _ \<Rightarrow> True"
    by simp
  have c: "hasFinalizer (GetFinalizers (PVCObj claim_c1_unbound)) \<and>
   \<not> IsZero (GetDeletionTimestamp (PVCObj claim_c1_unbound))" by code_simp
  from filter_rejects_unbound_and_foreign [OF a, of "PVCObj claim_c1_alive"]
       filter_rejects_unbound_and_foreign [OF b] a c
  show ?thesis by simp
qed

section \<open>Reconcile: the paths that write nothing\<close>

text \<open>
  C6: when the read of the claim fails with NotFound, \<^verbatim>\<open>Reconcile\<close> returns the zero
  result and no error; when it fails with any other error, \<^verbatim>\<open>Reconcile\<close> returns that
  error. In both cases the store is left as it was and no \<^verbatim>\<open>Update\<close> is issued.
\<close>

theorem Reconcile_claim_read_error:
  assumes "Get_PVC s (req_NamespacedName req) = Inl e"
  shows "(e = NotFound \<longrightarrow> terminal_success (fst (Reconcile req s))) \<and>
         (e \<noteq> NotFound \<longrightarrow> retryable_failure (fst (Reconcile req s)) \<and>
                            fst (Reconcile req s) = (Result_zero, Some e)) \<and>
         snd (Reconcile req s) = s \<and> Reconcile_updates req s = []"
  using assms
  by (simp add: Reconcile_def Reconcile_updates_def IgnoreNotFound_def terminal_success_def
      retryable_failure_def)

text \<open>C6 on a store without the claim, and on a store whose claim reads time out.\<close>

theorem Reconcile_claim_read_error_witness:
  "Get_PVC (cluster_A\<lparr>claims := []\<rparr>) (req_NamespacedName request_c1) = Inl NotFound \<and>
   terminal_success (fst (Reconcile request_c1 (cluster_A\<lparr>claims := []\<rparr>))) \<and>
   Get_PVC (cluster_A\<lparr>reactors := fail_on VerbGet KindPersistentVolumeClaim Transient\<rparr>)
     (req_NamespacedName request_c1) = Inl Transient \<and>
   fst (Reconcile request_c1
     (cluster_A\<lparr>reactors := fail_on VerbGet KindPersistentVolumeClaim Transient\<rparr>)) =
     (Result_zero, Some Transient)"
proof -
  have a: "Get_PVC (cluster_A\<lparr>claims := []\<rparr>) (req_NamespacedName request_c1) = Inl NotFound"
    by code_simp
  have b: "Get_PVC (cluster_A\<lparr>reactors := fail_on VerbGet KindPersistentVolumeClaim Transient\<rparr>)
     (req_NamespacedName request_c1) = Inl Transient"
    by code_simp
  from Reconcile_claim_read_error [OF a] Reconcile_claim_read_error [OF b] a b
  show ?thesis by simp
qed

lemma Reconcile_noop:
  assumes "Get_PVC s (req_NamespacedName req) = Inr pvc"
    and "IsZero (DeletionTimestamp (pvc_ObjectMeta pvc)) \<or>
         \<not> hasFinalizer (Finalizers (pvc_ObjectMeta pvc))"
  shows "Reconcile req s = ((Result_zero, None), s)"
  using assms by (auto simp: Reconcile_def)

lemma funpow_fixed: "f s = s \<Longrightarrow> (f ^^ n) s = s"
  by (induction n) simp_all

text \<open>
  C5: when the claim read has no deletion marker, or lacks the guard token,
  \<^verbatim>\<open>Reconcile\<close> returns the zero result and no error, issues no \<^verbatim>\<open>Update\<close> and leaves
  the store as it was; so any number \<open>n\<close> of runs in a row leaves the store as it was,
  and the next run succeeds again.
\<close>

theorem Reconcile_noop_without_deletion_or_token:
  assumes "Get_PVC s (req_NamespacedName req) = Inr pvc"
    and "IsZero (DeletionTimestamp (pvc_ObjectMeta pvc)) \<or>
         \<not> hasFinalizer (Finalizers (pvc_ObjectMeta pvc))"
  shows "terminal_success (fst (Reconcile req s)) \<and> snd (Reconcile req s) = s \<and>
         Reconcile_updates req s = [] \<and>
         ((\<lambda>t. snd (Reconcile req t)) ^^ n) s = s \<and>
         terminal_success (fst (Reconcile req (((\<lambda>t. snd (Reconcile req t)) ^^ n) s)))"
proof -
  have once: "Reconcile req s = ((Result_zero, None), s)"
    using assms by (rule Reconcile_noop)
  have again: "((\<lambda>t. snd (Reconcile req t)) ^^ n) s = s"
    by (rule funpow_fixed) (simp add: once)
  show ?thesis
    by (simp add: once again terminal_success_def Reconcile_updates_def)
qed

text \<open>C5 on the scenario claim with the guard token and no deletion marker, run twice.\<close>

theorem Reconcile_noop_without_deletion_or_token_witness:
  "Get_PVC cluster_alive (req_NamespacedName request_c1) = Inr claim_c1_alive \<and>
   (IsZero (DeletionTimestamp (pvc_ObjectMeta claim_c1_alive)) \<or>
      \<not> hasFinalizer (Finalizers (pvc_ObjectMeta claim_c1_alive))) \<and>
   hasFinalizer (Finalizers (pvc_ObjectMeta claim_c1_alive)) \<and>
   terminal_success (fst (Reconcile request_c1 cluster_alive)) \<and>
   snd (Reconcile request_c1 cluster_alive) = cluster_alive \<and>
   ((\<lambda>t. snd (Reconcile request_c1 t)) ^^ 2) cluster_alive = cluster_alive"
proof -
  have a: "Get_PVC cluster_alive (req_NamespacedName request_c1) = Inr claim_c1_alive"
    by code_simp
  have b: "IsZero (DeletionTimestamp (pvc_ObjectMeta claim_c1_alive)) \<or>
      \<not> hasFinalizer (Finalizers (pvc_ObjectMeta claim_c1_alive))"
    by code_simp
  have c: "hasFinalizer (Finalizers (pvc_ObjectMeta claim_c1_alive))"
    by code_simp
  from Reconcile_noop_without_deletion_or_token [OF a b, of 2] a b c
  show ?thesis by simp
qed

section \<open>Reconcile: the cleanup path\<close>

lemma token_removed_simps:
  "claim_key (token_removed pvc) = claim_key pvc"
  "pvc_Spec (token_removed pvc) = pvc_Spec pvc"
  "pvc_Status (token_removed pvc) = pvc_Status pvc"
  "Name (pvc_ObjectMeta (token_removed pvc)) = Name (pvc_ObjectMeta pvc)"
  "Namespace (pvc_ObjectMeta (token_removed pvc)) = Namespace (pvc_ObjectMeta pvc)"
  "\<not> hasFinalizer (Finalizers (pvc_ObjectMeta (token_removed pvc)))"
  by (simp_all add: token_removed_def claim_key_def hasFinalizer_def)

lemma claimRef_cleared_simps:
  "pv_ObjectMeta (claimRef_cleared pv) = pv_ObjectMeta pv"
  "pv_Status (claimRef_cleared pv) = pv_Status pv"
  "ClaimRef (pv_Spec (claimRef_cleared pv)) = None"
  "pv_StorageClassName (pv_Spec (claimRef_cleared pv)) = pv_StorageClassName (pv_Spec pv)"
  "PersistentVolumeReclaimPolicy (pv_Spec (claimRef_cleared pv)) =
     PersistentVolumeReclaimPolicy (pv_Spec pv)"
  "\<not> claimRef_matches (claimRef_cleared pv) c"
  by (simp_all add: claimRef_cleared_def claimRef_matches_def)


lemma Get_PVC_key: "Get_PVC s key = Inr pvc \<Longrightarrow> claim_key pvc = key"
  by (auto dest: Get_PVC_Inr stored_claim_key)

lemma Get_PV_name: "Get_PV s key = Inr pv \<Longrightarrow> Name (pv_ObjectMeta pv) = key_Name key"
  by (auto dest: Get_PV_Inr stored_volume_name)

lemma Reconcile_cleanup:
  assumes "Get_PVC s (req_NamespacedName req) = Inr pvc"
    and "\<not> IsZero (DeletionTimestamp (pvc_ObjectMeta pvc))"
    and "hasFinalizer (Finalizers (pvc_ObjectMeta pvc))"
  shows "Reconcile req s = handlePVCDeletion pvc s"
  using assms by (simp add: Reconcile_def)

lemma handle_unbound:
  "VolumeName (pvc_Spec pvc) = [] \<Longrightarrow>
     handlePVCDeletion pvc s = PVCReconciler_removeFinalizer pvc s"
  by (simp add: handlePVCDeletion_def)

lemma handle_volume_missing:
  "VolumeName (pvc_Spec pvc) \<noteq> [] \<Longrightarrow>
   Get_PV s \<lparr>key_Namespace = [], key_Name = VolumeName (pvc_Spec pvc)\<rparr> = Inl NotFound \<Longrightarrow>
     handlePVCDeletion pvc s = PVCReconciler_removeFinalizer pvc s"
  by (simp add: handlePVCDeletion_def IgnoreNotFound_def)

lemma handle_volume_error:
  "VolumeName (pvc_Spec pvc) \<noteq> [] \<Longrightarrow>
   Get_PV s \<lparr>key_Namespace = [], key_Name = VolumeName (pvc_Spec pvc)\<rparr> = Inl e \<Longrightarrow>
   e \<noteq> NotFound \<Longrightarrow>
     handlePVCDeletion pvc s = ((Result_zero, Some e), s)"
  by (simp add: handlePVCDeletion_def IgnoreNotFound_def)

lemma handle_mismatch:
  "VolumeName (pvc_Spec pvc) \<noteq> [] \<Longrightarrow>
   Get_PV s \<lparr>key_Namespace = [], key_Name = VolumeName (pvc_Spec pvc)\<rparr> = Inr pv \<Longrightarrow>
   \<not> claimRef_matches pv pvc \<Longrightarrow>
     handlePVCDeletion pvc s = PVCReconciler_removeFinalizer pvc s"
  by (simp add: handlePVCDeletion_def)

lemma handle_clear_failed:
  "VolumeName (pvc_Spec pvc) \<noteq> [] \<Longrightarrow>
   Get_PV s \<lparr>key_Namespace = [], key_Name = VolumeName (pvc_Spec pvc)\<rparr> = Inr pv \<Longrightarrow>
   claimRef_matches pv pvc \<Longrightarrow>
   fst (Update_PV (claimRef_cleared pv) s) = Some e \<Longrightarrow>
     handlePVCDeletion pvc s = ((Result_zero, Some e), snd (Update_PV (claimRef_cleared pv) s))"
  by (auto simp: handlePVCDeletion_def claimRef_cleared_def split: prod.splits)

lemma handle_cleared:
  "VolumeName (pvc_Spec pvc) \<noteq> [] \<Longrightarrow>
   Get_PV s \<lparr>key_Namespace = [], key_Name = VolumeName (pvc_Spec pvc)\<rparr> = Inr pv \<Longrightarrow>
   claimRef_matches pv pvc \<Longrightarrow>
   fst (Update_PV (claimRef_cleared pv) s) = None \<Longrightarrow>
     handlePVCDeletion pvc s =
       PVCReconciler_removeFinalizer pvc (snd (Update_PV (claimRef_cleared pv) s))"
  by (auto simp: handlePVCDeletion_def claimRef_cleared_def split: prod.splits)

text \<open>The six ways through the cleanup path.\<close>

lemma cleanup_cases [consumes 3, case_names unbound volume_missing volume_error mismatch
    clear_failed cleared]:
  assumes "Get_PVC s (req_NamespacedName req) = Inr pvc"
    and "\<not> IsZero (DeletionTimestamp (pvc_ObjectMeta pvc))"
    and "hasFinalizer (Finalizers (pvc_ObjectMeta pvc))"
  obtains
    "VolumeName (pvc_Spec pvc) = []"
    "Reconcile req s = PVCReconciler_removeFinalizer pvc s"
  | "VolumeName (pvc_Spec pvc) \<noteq> []"
    "Get_PV s \<lparr>key_Namespace = [], key_Name = VolumeName (pvc_Spec pvc)\<rparr> = Inl NotFound"
    "Reconcile req s = PVCReconciler_removeFinalizer pvc s"
  | e where "VolumeName (pvc_Spec pvc) \<noteq> []"
    "Get_PV s \<lparr>key_Namespace = [], key_Name = VolumeName (pvc_Spec pvc)\<rparr> = Inl e"
    "e \<noteq> NotFound"
    "Reconcile req s = ((Result_zero, Some e), s)"
  | pv where "VolumeName (pvc_Spec pvc) \<noteq> []"
    "Get_PV s \<lparr>key_Namespace = [], key_Name = VolumeName (pvc_Spec pvc)\<rparr> = Inr pv"
    "\<not> claimRef_matches pv pvc"
    "Reconcile req s = PVCReconciler_removeFinalizer pvc s"
  | pv e where "VolumeName (pvc_Spec pvc) \<noteq> []"
    "Get_PV s \<lparr>key_Namespace = [], key_Name = VolumeName (pvc_Spec pvc)\<rparr> = Inr pv"
    "claimRef_matches pv pvc"
    "fst (Update_PV (claimRef_cleared pv) s) = Some e"
    "Reconcile req s = ((Result_zero, Some e), snd (Update_PV (claimRef_cleared pv) s))"
  | pv where "VolumeName (pvc_Spec pvc) \<noteq> []"
    "Get_PV s \<lparr>key_Namespace = [], key_Name = VolumeName (pvc_Spec pvc)\<rparr> = Inr pv"
    "claimRef_matches pv pvc"
    "fst (Update_PV (claimRef_cleared pv) s) = None"
    "Reconcile req s = PVCReconciler_removeFinalizer pvc (snd (Update_PV (claimRef_cleared pv) s))"
proof -
  note run = Reconcile_cleanup [OF assms]
  show ?thesis
  proof (cases "VolumeName (pvc_Spec pvc) = []")
    case True
    then show ?thesis using that(1) run by (simp add: handle_unbound)
  next
    case bound: False
    show ?thesis
    proof (cases "Get_PV s \<lparr>key_Namespace = [], key_Name = VolumeName (pvc_Spec pvc)\<rparr>")
      case (Inl e)
      then show ?thesis
        using that(2,3) bound run
        by (cases "e = NotFound") (simp_all add: handle_volume_missing handle_volume_error)
    next
      case (Inr pv)
      show ?thesis
      proof (cases "claimRef_matches pv pvc")
        case False
        then show ?thesis using that(4) bound Inr run by (simp add: handle_mismatch)
      next
        case True
        then show ?thesis
          using that(5,6) bound Inr run
          by (cases "fst (Update_PV (claimRef_cleared pv) s)")
            (simp_all add: handle_clear_failed handle_cleared)
      qed
    qed
  qed
qed

text \<open>A run that ends with the token removal, issued on the store \<open>t\<close>.\<close>

lemma removal_run:
  assumes run: "Reconcile req s = PVCReconciler_removeFinalizer pvc t"
    and key: "claim_key pvc = req_NamespacedName req"
  shows "fst (fst (Reconcile req s)) = Result_zero"
    and "updates (snd (Reconcile req s)) =
           updates t @ [(PVCObj (token_removed pvc), snd (fst (Reconcile req s)))]"
    and "volumes (snd (Reconcile req s)) = volumes t"
    and "reactors (snd (Reconcile req s)) = reactors t"
    and "snd (fst (Reconcile req s)) = None \<Longrightarrow>
           stored_claim (snd (Reconcile req s)) (req_NamespacedName req) = Some (token_removed pvc)"
    and "snd (fst (Reconcile req s)) \<noteq> None \<Longrightarrow> claims (snd (Reconcile req s)) = claims t"
proof -
  note eq = run [unfolded removeFinalizer_method]
  show "fst (fst (Reconcile req s)) = Result_zero" by (simp add: eq)
  show "updates (snd (Reconcile req s)) =
           updates t @ [(PVCObj (token_removed pvc), snd (fst (Reconcile req s)))]"
    by (simp add: eq Update_PVC_log)
  show "volumes (snd (Reconcile req s)) = volumes t" by (simp add: eq Update_PVC_frame)
  show "reactors (snd (Reconcile req s)) = reactors t" by (simp add: eq Update_PVC_frame)
  show "stored_claim (snd (Reconcile req s)) (req_NamespacedName req) = Some (token_removed pvc)"
    if "snd (fst (Reconcile req s)) = None"
    using that Update_PVC_accepted [of "token_removed pvc" t] key
    by (simp add: eq token_removed_simps)
  show "claims (snd (Reconcile req s)) = claims t" if "snd (fst (Reconcile req s)) \<noteq> None"
    using that Update_PVC_rejected [of "token_removed pvc" t] by (simp add: eq)
qed

lemma removal_run_updates:
  assumes run: "Reconcile req s = PVCReconciler_removeFinalizer pvc s"
    and key: "claim_key pvc = req_NamespacedName req"
  shows "Reconcile_updates req s = [(PVCObj (token_removed pvc), snd (fst (Reconcile req s)))]"
  by (simp add: Reconcile_updates_def removal_run(2) [OF run key])

text \<open>The log of a run on the cleanup path has one of four shapes.\<close>

lemma cleanup_updates:
  assumes claim: "Get_PVC s (req_NamespacedName req) = Inr pvc"
    and del: "\<not> IsZero (DeletionTimestamp (pvc_ObjectMeta pvc))"
    and tok: "hasFinalizer (Finalizers (pvc_ObjectMeta pvc))"
  shows "(\<exists>e. VolumeName (pvc_Spec pvc) \<noteq> [] \<and>
              Get_PV s \<lparr>key_Namespace = [], key_Name = VolumeName (pvc_Spec pvc)\<rparr> = Inl e \<and>
              e \<noteq> NotFound \<and> Reconcile req s = ((Result_zero, Some e), s) \<and>
              Reconcile_updates req s = []) \<or>
         ((VolumeName (pvc_Spec pvc) = [] \<or>
           Get_PV s \<lparr>key_Namespace = [], key_Name = VolumeName (pvc_Spec pvc)\<rparr> = Inl NotFound \<or>
           (\<exists>pv. Get_PV s \<lparr>key_Namespace = [], key_Name = VolumeName (pvc_Spec pvc)\<rparr> = Inr pv \<and>
                 \<not> claimRef_matches pv pvc)) \<and>
          Reconcile req s = PVCReconciler_removeFinalizer pvc s \<and>
          Reconcile_updates req s = [(PVCObj (token_removed pvc), snd (fst (Reconcile req s)))]) \<or>
         (\<exists>pv e. VolumeName (pvc_Spec pvc) \<noteq> [] \<and>
              Get_PV s \<lparr>key_Namespace = [], key_Name = VolumeName (pvc_Spec pvc)\<rparr> = Inr pv \<and>
              claimRef_matches pv pvc \<and>
              Reconcile req s = ((Result_zero, Some e), snd (Update_PV (claimRef_cleared pv) s)) \<and>
              fst (Update_PV (claimRef_cleared pv) s) = Some e \<and>
              Reconcile_updates req s = [(PVObj (claimRef_cleared pv), Some e)]) \<or>
         (\<exists>pv. VolumeName (pvc_Spec pvc) \<noteq> [] \<and>
              Get_PV s \<lparr>key_Namespace = [], key_Name = VolumeName (pvc_Spec pvc)\<rparr> = Inr pv \<and>
              claimRef_matches pv pvc \<and>
              fst (Update_PV (claimRef_cleared pv) s) = None \<and>
              Reconcile req s =
                PVCReconciler_removeFinalizer pvc (snd (Update_PV (claimRef_cleared pv) s)) \<and>
              Reconcile_updates req s =
                [(PVObj (claimRef_cleared pv), None),
                 (PVCObj (token_removed pvc), snd (fst (Reconcile req s)))])"
  using claim del tok
proof (cases rule: cleanup_cases)
  case unbound
  with removal_run_updates [OF unbound(2) Get_PVC_key [OF claim]] show ?thesis by simp
next
  case volume_missing
  with removal_run_updates [OF volume_missing(3) Get_PVC_key [OF claim]] show ?thesis by simp
next
  case (volume_error e)
  then show ?thesis by (simp add: Reconcile_updates_def)
next
  case (mismatch pv)
  with removal_run_updates [OF mismatch(4) Get_PVC_key [OF claim]] show ?thesis by simp
next
  case (clear_failed pv e)
  then show ?thesis by (simp add: Reconcile_updates_def Update_PV_log)
next
  case (cleared pv)
  from removal_run(2) [OF cleared(5) Get_PVC_key [OF claim]] cleared
  show ?thesis by (simp add: Reconcile_updates_def Update_PV_log)
qed

lemma updates_only_on_cleanup:
  assumes "Reconcile_updates req s \<noteq> []"
  obtains pvc where "Get_PVC s (req_NamespacedName req) = Inr pvc"
    and "\<not> IsZero (DeletionTimestamp (pvc_ObjectMeta pvc))"
    and "hasFinalizer (Finalizers (pvc_ObjectMeta pvc))"
proof (cases "Get_PVC s (req_NamespacedName req)")
  case (Inl e)
  then have "Reconcile_updates req s = []"
    by (simp add: Reconcile_updates_def Reconcile_def)
  with assms show ?thesis by simp
next
  case (Inr pvc)
  show ?thesis
  proof (cases "\<not> IsZero (DeletionTimestamp (pvc_ObjectMeta pvc)) \<and>
                hasFinalizer (Finalizers (pvc_ObjectMeta pvc))")
    case True
    with Inr that show ?thesis by simp
  next
    case False
    with Inr have "Reconcile_updates req s = []"
      by (simp add: Reconcile_updates_def Reconcile_noop)
    with assms show ?thesis by simp
  qed
qed

text \<open>A run only appends to the log, so the entries it adds are the calls it issued.\<close>

lemma Reconcile_log_extends:
  "updates (snd (Reconcile req s)) = updates s @ Reconcile_updates req s"
proof (cases "Reconcile_updates req s = []")
  case False
  then obtain pvc where claim: "Get_PVC s (req_NamespacedName req) = Inr pvc"
    and del: "\<not> IsZero (DeletionTimestamp (pvc_ObjectMeta pvc))"
    and tok: "hasFinalizer (Finalizers (pvc_ObjectMeta pvc))"
    by (rule updates_only_on_cleanup)
  note key = Get_PVC_key [OF claim]
  have "\<exists>new. updates (snd (Reconcile req s)) = updates s @ new"
    using claim del tok
  proof (cases rule: cleanup_cases)
    case unbound
    from removal_run(2) [OF unbound(2) key] show ?thesis by simp
  next
    case volume_missing
    from removal_run(2) [OF volume_missing(3) key] show ?thesis by simp
  next
    case (volume_error e)
    then show ?thesis by simp
  next
    case (mismatch pv)
    from removal_run(2) [OF mismatch(4) key] show ?thesis by simp
  next
    case (clear_failed pv e)
    then show ?thesis by (simp add: Update_PV_log)
  next
    case (cleared pv)
    from removal_run(2) [OF cleared(5) key] show ?thesis by (simp add: Update_PV_log)
  qed
  then show ?thesis by (auto simp: Reconcile_updates_def)
next
  case True
  show ?thesis
  proof (cases "Get_PVC s (req_NamespacedName req)")
    case (Inl e)
    then show ?thesis by (simp add: Reconcile_updates_def Reconcile_def)
  next
    case (Inr pvc)
    show ?thesis
    proof (cases "\<not> IsZero (DeletionTimestamp (pvc_ObjectMeta pvc)) \<and>
                  hasFinalizer (Finalizers (pvc_ObjectMeta pvc))")
      case False
      with Inr show ?thesis by (simp add: Reconcile_updates_def Reconcile_noop)
    next
      case cleanup: True
      from cleanup_updates [OF Inr] cleanup True have stays: "snd (Reconcile req s) = s"
        by auto
      show ?thesis by (simp add: Reconcile_updates_def stays)
    qed
  qed
qed

lemma cleanup_ordering:
  assumes claim: "Get_PVC s (req_NamespacedName req) = Inr pvc"
    and del: "\<not> IsZero (DeletionTimestamp (pvc_ObjectMeta pvc))"
    and tok: "hasFinalizer (Finalizers (pvc_ObjectMeta pvc))"
    and split: "Reconcile_updates req s = before @ (PVCObj c, r) # after"
  shows "c = token_removed pvc \<and> after = [] \<and>
         (before = [] \<and>
          (VolumeName (pvc_Spec pvc) = [] \<or>
           Get_PV s \<lparr>key_Namespace = [], key_Name = VolumeName (pvc_Spec pvc)\<rparr> = Inl NotFound \<or>
           (\<exists>pv. Get_PV s \<lparr>key_Namespace = [], key_Name = VolumeName (pvc_Spec pvc)\<rparr> = Inr pv \<and>
                 \<not> claimRef_matches pv pvc)) \<or>
          (\<exists>pv. Get_PV s \<lparr>key_Namespace = [], key_Name = VolumeName (pvc_Spec pvc)\<rparr> = Inr pv \<and>
                claimRef_matches pv pvc \<and> before = [(PVObj (claimRef_cleared pv), None)]))"
  using cleanup_updates [OF claim del tok] split
  by (elim disjE exE conjE) (auto simp: Cons_eq_append_conv append_eq_Cons_conv)





section \<open>Reconcile: the claims about the cleanup path\<close>

text \<open>
  C7: on the cleanup path with a bound claim, when the read of the volume fails with
  NotFound, the run issues one \<^verbatim>\<open>Update\<close>, the claim without the guard token, and no
  volume update; the error it returns is the one of that claim update, so NotFound itself
  is not reported, and when the claim update is accepted the run ends in success with
  the token gone from the stored claim. When the read of the volume fails with any other
  error, the run returns that error, issues no \<^verbatim>\<open>Update\<close> and leaves the store as it
  was.
\<close>

theorem volume_read_error:
  assumes claim: "Get_PVC s (req_NamespacedName req) = Inr pvc"
    and del: "\<not> IsZero (DeletionTimestamp (pvc_ObjectMeta pvc))"
    and tok: "hasFinalizer (Finalizers (pvc_ObjectMeta pvc))"
    and bound: "VolumeName (pvc_Spec pvc) \<noteq> []"
    and pv: "Get_PV s \<lparr>key_Namespace = [], key_Name = VolumeName (pvc_Spec pvc)\<rparr> = Inl e"
  shows "(e = NotFound \<longrightarrow>
            Reconcile_updates req s = [(PVCObj (token_removed pvc), snd (fst (Reconcile req s)))] \<and>
            \<not> hasFinalizer (Finalizers (pvc_ObjectMeta (token_removed pvc))) \<and>
            fst (fst (Reconcile req s)) = Result_zero \<and>
            volumes (snd (Reconcile req s)) = volumes s \<and>
            (snd (fst (Reconcile req s)) = None \<longrightarrow>
               terminal_success (fst (Reconcile req s)) \<and>
               stored_claim (snd (Reconcile req s)) (req_NamespacedName req) =
                 Some (token_removed pvc))) \<and>
         (e \<noteq> NotFound \<longrightarrow>
            fst (Reconcile req s) = (Result_zero, Some e) \<and>
            retryable_failure (fst (Reconcile req s)) \<and>
            snd (Reconcile req s) = s \<and> Reconcile_updates req s = [])"
proof (cases "e = NotFound")
  case True
  have run: "Reconcile req s = PVCReconciler_removeFinalizer pvc s"
    using pv True bound by (simp add: Reconcile_cleanup [OF claim del tok] handle_volume_missing)
  note key = Get_PVC_key [OF claim]
  show ?thesis
    using True removal_run [OF run key] removal_run_updates [OF run key]
    by (simp add: token_removed_simps terminal_success_def prod_eq_iff)
next
  case False
  have run: "Reconcile req s = ((Result_zero, Some e), s)"
    using pv False bound by (simp add: Reconcile_cleanup [OF claim del tok] handle_volume_error)
  show ?thesis
    using False by (simp add: run Reconcile_updates_def retryable_failure_def)
qed

text \<open>C7 on scenario C (volume missing) and on scenario A with volume reads timing out.\<close>

theorem volume_read_error_witness:
  "Get_PVC cluster_C (req_NamespacedName request_c1) = Inr claim_c1 \<and>
   Get_PVC cluster_A_timeout (req_NamespacedName request_c1) = Inr claim_c1 \<and>
   \<not> IsZero (DeletionTimestamp (pvc_ObjectMeta claim_c1)) \<and>
   hasFinalizer (Finalizers (pvc_ObjectMeta claim_c1)) \<and>
   VolumeName (pvc_Spec claim_c1) \<noteq> [] \<and>
   Get_PV cluster_C \<lparr>key_Namespace = [], key_Name = VolumeName (pvc_Spec claim_c1)\<rparr> =
     Inl NotFound \<and>
   Get_PV cluster_A_timeout \<lparr>key_Namespace = [], key_Name = VolumeName (pvc_Spec claim_c1)\<rparr> =
     Inl Transient \<and>
   Reconcile_updates request_c1 cluster_C = [(PVCObj (token_removed claim_c1), None)] \<and>
   fst (Reconcile request_c1 cluster_A_timeout) = (Result_zero, Some Transient) \<and>
   snd (Reconcile request_c1 cluster_A_timeout) = cluster_A_timeout"
proof -
  have a: "Get_PVC cluster_C (req_NamespacedName request_c1) = Inr claim_c1"
    by code_simp
  have a': "Get_PVC cluster_A_timeout (req_NamespacedName request_c1) = Inr claim_c1"
    by code_simp
  have b: "\<not> IsZero (DeletionTimestamp (pvc_ObjectMeta claim_c1))"
    by code_simp
  have c: "hasFinalizer (Finalizers (pvc_ObjectMeta claim_c1))"
    by code_simp
  have d: "VolumeName (pvc_Spec claim_c1) \<noteq> []"
    by code_simp
  have e: "Get_PV cluster_C \<lparr>key_Namespace = [], key_Name = VolumeName (pvc_Spec claim_c1)\<rparr> =
     Inl NotFound"
    by code_simp
  have e': "Get_PV cluster_A_timeout \<lparr>key_Namespace = [], key_Name = VolumeName (pvc_Spec claim_c1)\<rparr> =
     Inl Transient"
    by code_simp
  have f: "snd (fst (Reconcile request_c1 cluster_C)) = None"
    by code_simp
  from volume_read_error [OF a b c d e] volume_read_error [OF a' b c d e'] a a' b c d e e' f
  show ?thesis by simp
qed

text \<open>
  C4: on the cleanup path with a bound claim whose volume exists, when the volume has no
  back-reference or one that differs from the claim in name or namespace, the run issues
  exactly one \<^verbatim>\<open>Update\<close>, the claim without the guard token; the stored volumes are
  untouched, and when the claim update is accepted the run ends in success with the token
  gone from the stored claim.
\<close>

theorem mismatched_reference_left_alone:
  assumes claim: "Get_PVC s (req_NamespacedName req) = Inr pvc"
    and del: "\<not> IsZero (DeletionTimestamp (pvc_ObjectMeta pvc))"
    and tok: "hasFinalizer (Finalizers (pvc_ObjectMeta pvc))"
    and bound: "VolumeName (pvc_Spec pvc) \<noteq> []"
    and pv: "Get_PV s \<lparr>key_Namespace = [], key_Name = VolumeName (pvc_Spec pvc)\<rparr> = Inr pv"
    and mismatch: "case ClaimRef (pv_Spec pv) of
                     None \<Rightarrow> True
                   | Some ref \<Rightarrow> ref_Name ref \<noteq> Name (pvc_ObjectMeta pvc) \<or>
                                 ref_Namespace ref \<noteq> Namespace (pvc_ObjectMeta pvc)"
  shows "Reconcile_updates req s = [(PVCObj (token_removed pvc), snd (fst (Reconcile req s)))] \<and>
         length (Reconcile_updates req s) = 1 \<and>
         \<not> hasFinalizer (Finalizers (pvc_ObjectMeta (token_removed pvc))) \<and>
         fst (fst (Reconcile req s)) = Result_zero \<and>
         volumes (snd (Reconcile req s)) = volumes s \<and>
         (snd (fst (Reconcile req s)) = None \<longrightarrow>
            terminal_success (fst (Reconcile req s)) \<and>
            stored_claim (snd (Reconcile req s)) (req_NamespacedName req) =
              Some (token_removed pvc))"
proof -
  have "\<not> claimRef_matches pv pvc"
    using mismatch by (auto simp: claimRef_matches_def split: option.splits)
  then have run: "Reconcile req s = PVCReconciler_removeFinalizer pvc s"
    using pv bound by (simp add: Reconcile_cleanup [OF claim del tok] handle_mismatch)
  note key = Get_PVC_key [OF claim]
  show ?thesis
    using removal_run [OF run key] removal_run_updates [OF run key]
    by (simp add: token_removed_simps terminal_success_def prod_eq_iff)
qed

text \<open>C4 on scenario B: the volume refers to claim \<^verbatim>\<open>other\<close> in namespace \<^verbatim>\<open>ns2\<close>.\<close>

theorem mismatched_reference_left_alone_witness:
  "Get_PVC cluster_B (req_NamespacedName request_c1) = Inr claim_c1 \<and>
   \<not> IsZero (DeletionTimestamp (pvc_ObjectMeta claim_c1)) \<and>
   hasFinalizer (Finalizers (pvc_ObjectMeta claim_c1)) \<and>
   VolumeName (pvc_Spec claim_c1) \<noteq> [] \<and>
   Get_PV cluster_B \<lparr>key_Namespace = [], key_Name = VolumeName (pvc_Spec claim_c1)\<rparr> =
     Inr volume_v1_other \<and>
   (case ClaimRef (pv_Spec volume_v1_other) of
      None \<Rightarrow> True
    | Some ref \<Rightarrow> ref_Name ref \<noteq> Name (pvc_ObjectMeta claim_c1) \<or>
                  ref_Namespace ref \<noteq> Namespace (pvc_ObjectMeta claim_c1)) \<and>
   Reconcile_updates request_c1 cluster_B = [(PVCObj (token_removed claim_c1), None)] \<and>
   volumes (snd (Reconcile request_c1 cluster_B)) = [volume_v1_other] \<and>
   stored_claim (snd (Reconcile request_c1 cluster_B)) (req_NamespacedName request_c1) =
     Some (token_removed claim_c1)"
proof -
  have a: "Get_PVC cluster_B (req_NamespacedName request_c1) = Inr claim_c1"
    by code_simp
  have b: "\<not> IsZero (DeletionTimestamp (pvc_ObjectMeta claim_c1))"
    by code_simp
  have c: "hasFinalizer (Finalizers (pvc_ObjectMeta claim_c1))"
    by code_simp
  have d: "VolumeName (pvc_Spec claim_c1) \<noteq> []"
    by code_simp
  have e: "Get_PV cluster_B \<lparr>key_Namespace = [], key_Name = VolumeName (pvc_Spec claim_c1)\<rparr> =
     Inr volume_v1_other"
    by code_simp
  have f: "case ClaimRef (pv_Spec volume_v1_other) of
      None \<Rightarrow> True
    | Some ref \<Rightarrow> ref_Name ref \<noteq> Name (pvc_ObjectMeta claim_c1) \<or>
                  ref_Namespace ref \<noteq> Namespace (pvc_ObjectMeta claim_c1)"
    by code_simp
  have g: "snd (fst (Reconcile request_c1 cluster_B)) = None"
    by code_simp
  have h: "volumes cluster_B = [volume_v1_other]"
    by code_simp
  from mismatched_reference_left_alone [OF a b c d e f] a b c d e f g h
  show ?thesis by simp
qed

text \<open>
  C3: on the cleanup path with a bound claim whose volume exists and refers back to the
  claim by name and namespace, a run that returns no error has issued exactly two
  \<^verbatim>\<open>Update\<close> calls, both accepted: first the volume with the back-reference cleared,
  then the claim without the guard token. Afterwards the stored volume has no
  back-reference and the stored claim has no guard token.
\<close>

theorem matching_reference_cleared:
  assumes claim: "Get_PVC s (req_NamespacedName req) = Inr pvc"
    and del: "\<not> IsZero (DeletionTimestamp (pvc_ObjectMeta pvc))"
    and tok: "hasFinalizer (Finalizers (pvc_ObjectMeta pvc))"
    and bound: "VolumeName (pvc_Spec pvc) \<noteq> []"
    and pv: "Get_PV s \<lparr>key_Namespace = [], key_Name = VolumeName (pvc_Spec pvc)\<rparr> = Inr pv"
    and ref: "ClaimRef (pv_Spec pv) = Some ref"
    and name: "ref_Name ref = Name (pvc_ObjectMeta pvc)"
    and ns: "ref_Namespace ref = Namespace (pvc_ObjectMeta pvc)"
    and ok: "snd (fst (Reconcile req s)) = None"
  shows "terminal_success (fst (Reconcile req s)) \<and>
         Reconcile_updates req s =
           [(PVObj (claimRef_cleared pv), None), (PVCObj (token_removed pvc), None)] \<and>
         length (Reconcile_updates req s) = 2 \<and>
         stored_volume (snd (Reconcile req s)) (VolumeName (pvc_Spec pvc)) =
           Some (claimRef_cleared pv) \<and>
         ClaimRef (pv_Spec (claimRef_cleared pv)) = None \<and>
         stored_claim (snd (Reconcile req s)) (req_NamespacedName req) = Some (token_removed pvc) \<and>
         \<not> hasFinalizer (Finalizers (pvc_ObjectMeta (token_removed pvc)))"
proof -
  let ?s1 = "snd (Update_PV (claimRef_cleared pv) s)"
  have match: "claimRef_matches pv pvc"
    using ref name ns by (simp add: claimRef_matches_def)
  note handle = Reconcile_cleanup [OF claim del tok]
  have cleared: "fst (Update_PV (claimRef_cleared pv) s) = None"
  proof (cases "fst (Update_PV (claimRef_cleared pv) s)")
    case None
    then show ?thesis .
  next
    case (Some e)
    from handle_clear_failed [OF bound pv match Some] ok handle show ?thesis by simp
  qed
  have run: "Reconcile req s = PVCReconciler_removeFinalizer pvc ?s1"
    using handle handle_cleared [OF bound pv match cleared] by simp
  note key = Get_PVC_key [OF claim]
  note facts = removal_run [OF run key]
  have log: "updates (snd (Reconcile req s)) =
      updates s @ [(PVObj (claimRef_cleared pv), None), (PVCObj (token_removed pvc), None)]"
    using facts(2) ok cleared Update_PV_log [of "claimRef_cleared pv" s] by simp
  have vol: "stored_volume (snd (Reconcile req s)) (VolumeName (pvc_Spec pvc)) =
           Some (claimRef_cleared pv)"
    using Update_PV_accepted [OF cleared] Get_PV_name [OF pv] facts(3)
    by (simp add: stored_volume_def claimRef_cleared_simps)
  show ?thesis
    using facts(1) facts(5) [OF ok] ok log vol
    by (simp add: terminal_success_def Reconcile_updates_def token_removed_simps
        claimRef_cleared_simps prod_eq_iff)
qed

text \<open>C3 on scenario A.\<close>

theorem matching_reference_cleared_witness:
  "Get_PVC cluster_A (req_NamespacedName request_c1) = Inr claim_c1 \<and>
   \<not> IsZero (DeletionTimestamp (pvc_ObjectMeta claim_c1)) \<and>
   hasFinalizer (Finalizers (pvc_ObjectMeta claim_c1)) \<and>
   VolumeName (pvc_Spec claim_c1) \<noteq> [] \<and>
   Get_PV cluster_A \<lparr>key_Namespace = [], key_Name = VolumeName (pvc_Spec claim_c1)\<rparr> =
     Inr volume_v1 \<and>
   ClaimRef (pv_Spec volume_v1) =
     Some \<lparr>ref_Kind = ''PersistentVolumeClaim'', ref_Namespace = ''ns1'', ref_Name = ''c1'',
            ref_UID = ''uid-c1''\<rparr> \<and>
   Name (pvc_ObjectMeta claim_c1) = ''c1'' \<and> Namespace (pvc_ObjectMeta claim_c1) = ''ns1'' \<and>
   snd (fst (Reconcile request_c1 cluster_A)) = None \<and>
   Reconcile_updates request_c1 cluster_A =
     [(PVObj (claimRef_cleared volume_v1), None), (PVCObj (token_removed claim_c1), None)] \<and>
   stored_volume (snd (Reconcile request_c1 cluster_A)) ''v1'' = Some (claimRef_cleared volume_v1) \<and>
   stored_claim (snd (Reconcile request_c1 cluster_A)) (req_NamespacedName request_c1) =
     Some (token_removed claim_c1)"
proof -
  have a: "Get_PVC cluster_A (req_NamespacedName request_c1) = Inr claim_c1"
    by code_simp
  have b: "\<not> IsZero (DeletionTimestamp (pvc_ObjectMeta claim_c1))"
    by code_simp
  have c: "hasFinalizer (Finalizers (pvc_ObjectMeta claim_c1))"
    by code_simp
  have d: "VolumeName (pvc_Spec claim_c1) \<noteq> []"
    by code_simp
  have e: "Get_PV cluster_A \<lparr>key_Namespace = [], key_Name = VolumeName (pvc_Spec claim_c1)\<rparr> =
     Inr volume_v1"
    by code_simp
  have f: "ClaimRef (pv_Spec volume_v1) =
     Some \<lparr>ref_Kind = ''PersistentVolumeClaim'', ref_Namespace = ''ns1'', ref_Name = ''c1'',
            ref_UID = ''uid-c1''\<rparr>"
    by code_simp
  have g: "ref_Name \<lparr>ref_Kind = ''PersistentVolumeClaim'', ref_Namespace = ''ns1'', ref_Name = ''c1'',
            ref_UID = ''uid-c1''\<rparr> = Name (pvc_ObjectMeta claim_c1)"
    by code_simp
  have h: "ref_Namespace \<lparr>ref_Kind = ''PersistentVolumeClaim'', ref_Namespace = ''ns1'',
            ref_Name = ''c1'', ref_UID = ''uid-c1''\<rparr> = Namespace (pvc_ObjectMeta claim_c1)"
    by code_simp
  have i: "snd (fst (Reconcile request_c1 cluster_A)) = None"
    by code_simp
  have j: "VolumeName (pvc_Spec claim_c1) = ''v1''"
    by code_simp
  from matching_reference_cleared [OF a b c d e f g h i] a b c d e f g h i j
  show ?thesis by simp
qed




text \<open>
  C9: every claim update that a run issues carries the claim as read, with its finalizers
  replaced by the list that \<^verbatim>\<open>removeFinalizer\<close> returns, and nothing else changed. For
  every list \<open>fs\<close>, \<^verbatim>\<open>removeFinalizer\<close> returns the elements of \<open>fs\<close> other than
  the guard token, in their order and with their repetitions; the token is never in the
  result.
\<close>

theorem claim_write_removes_only_the_token:
  assumes claim: "Get_PVC s (req_NamespacedName req) = Inr pvc"
    and wr: "(PVCObj c, r) \<in> set (Reconcile_updates req s)"
  shows "c = pvc\<lparr>pvc_ObjectMeta := (pvc_ObjectMeta pvc)
                \<lparr>Finalizers := removeFinalizer (Finalizers (pvc_ObjectMeta pvc))\<rparr>\<rparr> \<and>
         removeFinalizer (Finalizers (pvc_ObjectMeta pvc)) =
           filter (\<lambda>f. f \<noteq> PVClaimRefCleanupFinalizer) (Finalizers (pvc_ObjectMeta pvc)) \<and>
         PVClaimRefCleanupFinalizer \<notin> set (Finalizers (pvc_ObjectMeta c)) \<and>
         pvc_Spec c = pvc_Spec pvc \<and> pvc_Status c = pvc_Status pvc \<and>
         removeFinalizer fs = filter (\<lambda>f. f \<noteq> PVClaimRefCleanupFinalizer) fs \<and>
         PVClaimRefCleanupFinalizer \<notin> set (removeFinalizer fs)"
proof -
  from wr have "Reconcile_updates req s \<noteq> []" by auto
  then obtain pvc' where "Get_PVC s (req_NamespacedName req) = Inr pvc'"
    and del: "\<not> IsZero (DeletionTimestamp (pvc_ObjectMeta pvc'))"
    and tok: "hasFinalizer (Finalizers (pvc_ObjectMeta pvc'))"
    by (rule updates_only_on_cleanup)
  with claim have [simp]: "pvc' = pvc" by simp
  from split_list [OF wr] obtain before after
    where "Reconcile_updates req s = before @ (PVCObj c, r) # after"
    by blast
  from cleanup_ordering [OF claim del [simplified] tok [simplified] this]
  have "c = token_removed pvc" by simp
  then show ?thesis
    by (simp add: token_removed_def removeFinalizer_filter)
qed

text \<open>C9 on scenario B: of the claim's two finalizers, the other one is written back.\<close>

theorem claim_write_removes_only_the_token_witness:
  "Get_PVC cluster_B (req_NamespacedName request_c1) = Inr claim_c1 \<and>
   (PVCObj (token_removed claim_c1), None) \<in> set (Reconcile_updates request_c1 cluster_B) \<and>
   Finalizers (pvc_ObjectMeta claim_c1) =
     [''kubernetes.io/pvc-protection'', ''liberator.io/pv-claim-ref-cleanup''] \<and>
   Finalizers (pvc_ObjectMeta (token_removed claim_c1)) = [''kubernetes.io/pvc-protection''] \<and>
   PVClaimRefCleanupFinalizer \<notin> set (Finalizers (pvc_ObjectMeta (token_removed claim_c1)))"
proof -
  have a: "Get_PVC cluster_B (req_NamespacedName request_c1) = Inr claim_c1"
    by code_simp
  have b: "(PVCObj (token_removed claim_c1), None) \<in> set (Reconcile_updates request_c1 cluster_B)"
    by code_simp
  have c: "Finalizers (pvc_ObjectMeta claim_c1) =
     [''kubernetes.io/pvc-protection'', ''liberator.io/pv-claim-ref-cleanup'']"
    by code_simp
  have d: "Finalizers (pvc_ObjectMeta (token_removed claim_c1)) = [''kubernetes.io/pvc-protection'']"
    by code_simp
  note all = claim_write_removes_only_the_token [OF a b]
  from all [THEN conjunct2, THEN conjunct2, THEN conjunct1] a b c d
  show ?thesis by simp
qed

text \<open>
  C10: every volume update that a run issues carries the volume as read with the
  back-reference set to nil: the other fields of the spec, the metadata and the status
  are those of the volume read. The run issues it only for a matching back-reference.
\<close>

theorem volume_write_changes_only_claimRef:
  assumes claim: "Get_PVC s (req_NamespacedName req) = Inr pvc"
    and pv: "Get_PV s \<lparr>key_Namespace = [], key_Name = VolumeName (pvc_Spec pvc)\<rparr> = Inr pv"
    and wr: "(PVObj w, r) \<in> set (Reconcile_updates req s)"
  shows "w = pv\<lparr>pv_Spec := (pv_Spec pv)\<lparr>ClaimRef := None\<rparr>\<rparr> \<and>
         ClaimRef (pv_Spec w) = None \<and>
         pv_StorageClassName (pv_Spec w) = pv_StorageClassName (pv_Spec pv) \<and>
         PersistentVolumeReclaimPolicy (pv_Spec w) = PersistentVolumeReclaimPolicy (pv_Spec pv) \<and>
         pv_ObjectMeta w = pv_ObjectMeta pv \<and>
         pv_Status w = pv_Status pv \<and>
         claimRef_matches pv pvc"
proof -
  from wr have "Reconcile_updates req s \<noteq> []" by auto
  then obtain pvc' where "Get_PVC s (req_NamespacedName req) = Inr pvc'"
    and del: "\<not> IsZero (DeletionTimestamp (pvc_ObjectMeta pvc'))"
    and tok: "hasFinalizer (Finalizers (pvc_ObjectMeta pvc'))"
    by (rule updates_only_on_cleanup)
  with claim have [simp]: "pvc' = pvc" by simp
  from cleanup_updates [OF claim del [simplified] tok [simplified]] wr pv
  have "w = claimRef_cleared pv \<and> claimRef_matches pv pvc"
    by (elim disjE exE conjE) auto
  then show ?thesis
    by (simp add: claimRef_cleared_def)
qed

text \<open>C10 on scenario A.\<close>

theorem volume_write_changes_only_claimRef_witness:
  "Get_PVC cluster_A (req_NamespacedName request_c1) = Inr claim_c1 \<and>
   Get_PV cluster_A \<lparr>key_Namespace = [], key_Name = VolumeName (pvc_Spec claim_c1)\<rparr> =
     Inr volume_v1 \<and>
   (PVObj (claimRef_cleared volume_v1), None) \<in> set (Reconcile_updates request_c1 cluster_A) \<and>
   ClaimRef (pv_Spec volume_v1) \<noteq> None \<and>
   ClaimRef (pv_Spec (claimRef_cleared volume_v1)) = None \<and>
   pv_ObjectMeta (claimRef_cleared volume_v1) = pv_ObjectMeta volume_v1 \<and>
   pv_Status (claimRef_cleared volume_v1) = pv_Status volume_v1"
proof -
  have a: "Get_PVC cluster_A (req_NamespacedName request_c1) = Inr claim_c1"
    by code_simp
  have b: "Get_PV cluster_A \<lparr>key_Namespace = [], key_Name = VolumeName (pvc_Spec claim_c1)\<rparr> =
     Inr volume_v1"
    by code_simp
  have c: "(PVObj (claimRef_cleared volume_v1), None) \<in> set (Reconcile_updates request_c1 cluster_A)"
    by code_simp
  have d: "ClaimRef (pv_Spec volume_v1) \<noteq> None"
    by code_simp
  note all = volume_write_changes_only_claimRef [OF a b c]
  from all a b c d
  show ?thesis by simp
qed

end
